theory Spec2Isabelle
  imports Main
begin

section \<open>JavaScript values used by the engage schedule tracker\<close>

text \<open>
  The fields \<open>type\<close>, \<open>day\<close> and \<open>month\<close> of a \<open>scheduleDate\<close> are read with
  JavaScript's dynamic operators (\<open>!x\<close>, \<open>x || y\<close>, \<open>x.length\<close>, \<open>x === y\<close>, template
  interpolation), so they are modelled as primitive JavaScript values. Numbers are
  \<open>NaN\<close> and the integers that a JavaScript number holds exactly, of magnitude up to
  \<open>2\<^sup>5\<^sup>3\<close>, which print in decimal; objects, fractional numbers and larger numbers
  are outside the model.
\<close>

datatype jsval = JUndefined | JNull | JBool bool | JNum int | JNaN | JStr string

datatype error = TypeError

text \<open>\<open>!x\<close> is true exactly for the falsy values.\<close>

fun truthy :: "jsval \<Rightarrow> bool" where
  "truthy JUndefined = False"
| "truthy JNull = False"
| "truthy (JBool b) = b"
| "truthy (JNum n) = (n \<noteq> 0)"
| "truthy JNaN = False"
| "truthy (JStr s) = (s \<noteq> [])"

text \<open>\<open>a || b\<close>: the left operand when it is truthy, the right one otherwise.\<close>

definition js_or :: "jsval \<Rightarrow> jsval \<Rightarrow> jsval" where
  "js_or a b = (if truthy a then a else b)"

text \<open>
  \<open>x.length\<close>: reading a property of \<open>undefined\<close> or \<open>null\<close> throws a TypeError; a
  string has its length; a boolean or a number has no such property.
\<close>

fun js_length :: "jsval \<Rightarrow> error + jsval" where
  "js_length JUndefined = Inl TypeError"
| "js_length JNull = Inl TypeError"
| "js_length (JStr s) = Inr (JNum (int (length s)))"
| "js_length (JBool b) = Inr JUndefined"
| "js_length (JNum n) = Inr JUndefined"
| "js_length JNaN = Inr JUndefined"

text \<open>
  Decimal digits of a number, as template interpolation prints the integers of the
  model.
\<close>

definition digit :: "nat \<Rightarrow> char" where
  "digit d =
     (if d = 0 then CHR ''0'' else if d = 1 then CHR ''1'' else if d = 2 then CHR ''2''
      else if d = 3 then CHR ''3'' else if d = 4 then CHR ''4'' else if d = 5 then CHR ''5''
      else if d = 6 then CHR ''6'' else if d = 7 then CHR ''7'' else if d = 8 then CHR ''8''
      else CHR ''9'')"

fun string_of_nat :: "nat \<Rightarrow> string" where
  "string_of_nat n =
     (if n < 10 then [digit n] else string_of_nat (n div 10) @ [digit (n mod 10)])"

declare string_of_nat.simps [simp del]

definition string_of_int :: "int \<Rightarrow> string" where
  "string_of_int i =
     (if i < 0 then CHR ''-'' # string_of_nat (nat (- i)) else string_of_nat (nat i))"

text \<open>\<open>`${x}`\<close>: the string conversion of a primitive value.\<close>

fun toString :: "jsval \<Rightarrow> string" where
  "toString JUndefined = ''undefined''"
| "toString JNull = ''null''"
| "toString (JBool b) = (if b then ''true'' else ''false'')"
| "toString (JNum n) = string_of_int n"
| "toString JNaN = ''NaN''"
| "toString (JStr s) = s"

section \<open>The recurrence descriptor and the moment library\<close>

text \<open>
  The \<open>time\<close> field is a timestamp: absent (\<open>undefined\<close>), \<open>null\<close>, or a \<open>Date\<close>
  object. A valid \<open>Date\<close> is given by its local hour and minute; \<open>None\<close> is the
  \<open>Invalid Date\<close>. A \<open>Date\<close> object is truthy whatever it holds.
\<close>

datatype jstime = TimeUndefined | TimeNull | TimeDate "(nat \<times> nat) option"

fun time_truthy :: "jstime \<Rightarrow> bool" where
  "time_truthy TimeUndefined = False"
| "time_truthy TimeNull = False"
| "time_truthy (TimeDate d) = True"

record scheduleDate =
  sd_type :: jsval
  sd_time :: jstime
  sd_day :: jsval
  sd_month :: jsval

text \<open>
  \<open>moment(x)\<close> is a call into the moment.js library, which is not part of the
  repository. It is modelled by the library's documented behaviour: \<open>moment(undefined)\<close>
  is \<open>moment()\<close>, the current local time (the first argument here, as hour and
  minute); \<open>moment(null)\<close> and the moment of an invalid date are invalid moments; the
  moment of a valid date is that date. An invalid moment is \<open>None\<close>, and its \<open>hour()\<close>
  and \<open>minute()\<close> are \<open>NaN\<close>.
\<close>

type_synonym clock = "nat \<times> nat"

fun moment :: "clock \<Rightarrow> jstime \<Rightarrow> (nat \<times> nat) option" where
  "moment now TimeUndefined = Some now"
| "moment now TimeNull = None"
| "moment now (TimeDate d) = d"

fun hour :: "(nat \<times> nat) option \<Rightarrow> jsval" where
  "hour None = JNaN"
| "hour (Some (h, m)) = JNum (int h)"

fun minute :: "(nat \<times> nat) option \<Rightarrow> jsval" where
  "minute None = JNaN"
| "minute (Some (h, m)) = JNum (int m)"

section \<open>createScheduleRule\<close>

text \<open>
  The extraction path of \<open>createScheduleRule\<close> (source lines 33 to 49): the five
  locals \<open>minute\<close>, \<open>hour\<close>, \<open>day\<close>, \<open>month\<close>, \<open>dayOfWeek\<close>, in the order in which
  the returned template prints them. Reading \<open>scheduleDate.type.length\<close> throws when
  \<open>type\<close> is \<open>undefined\<close> or \<open>null\<close>.
\<close>

definition ruleFields ::
  "clock \<Rightarrow> scheduleDate \<Rightarrow> error + (jsval \<times> jsval \<times> jsval \<times> jsval \<times> jsval)" where
  "ruleFields now sd =
     (let time = moment now (sd_time sd);
          hour_v = js_or (hour time) (JStr ''*'');
          minute_v = js_or (minute time) (JStr ''*'');
          month_v = js_or (sd_month sd) (JStr ''*'')
      in case js_length (sd_type sd) of
           Inl e \<Rightarrow> Inl e
         | Inr len \<Rightarrow>
             (let dayOfWeek = (if len = JNum 1 then js_or (sd_type sd) (JStr ''*'')
                               else JStr ''*'');
                  day_v = (if sd_type sd = JStr ''month'' \<or> sd_type sd = JStr ''year''
                           then js_or (sd_day sd) (JStr ''*'') else JStr ''*'')
              in Inr (minute_v, hour_v, day_v, month_v, dayOfWeek)))"

text \<open>The returned template \<open>`${minute} ${hour} ${day} ${month} ${dayOfWeek}`\<close>.\<close>

fun template :: "jsval \<times> jsval \<times> jsval \<times> jsval \<times> jsval \<Rightarrow> string" where
  "template (mi, h, d, mo, dw) =
     toString mi @ '' '' @ toString h @ '' '' @ toString d @ '' '' @ toString mo
       @ '' '' @ toString dw"

text \<open>
  \<open>createScheduleRule(scheduleDate)\<close>. The argument is absent (\<open>None\<close>: \<open>undefined\<close>
  or \<open>null\<close>) or an object. The first argument is the local time at the call, which
  \<open>moment\<close> reads when the \<open>time\<close> field is \<open>undefined\<close>.
\<close>

definition createScheduleRule :: "clock \<Rightarrow> scheduleDate option \<Rightarrow> error + string" where
  "createScheduleRule now scheduleDate_v =
     (case scheduleDate_v of
        None \<Rightarrow> Inr ''* 45 23 * ''
      | Some sd \<Rightarrow>
          if \<not> truthy (sd_type sd) \<and> \<not> time_truthy (sd_time sd) then Inr ''* 45 23 * ''
          else (case ruleFields now sd of
                  Inl e \<Rightarrow> Inl e
                | Inr fs \<Rightarrow> Inr (template fs)))"

section \<open>Messages, the message store and the scheduling runtime\<close>

text \<open>
  An engage message, with the fields the tracker and the bootstrap read: \<open>_id\<close>,
  \<open>scheduleDate\<close>, \<open>kind\<close> and \<open>isLive\<close>. The store \<open>EngageMessages\<close> is the list of
  its documents.
\<close>

record message =
  msg_id :: string
  scheduleDate :: "scheduleDate option"
  kind :: string
  isLive :: bool

text \<open>\<open>EngageMessages.findOne({ _id })\<close>: the first document with that id, or \<open>null\<close>.\<close>

definition findOne :: "message list \<Rightarrow> string \<Rightarrow> message option" where
  "findOne store i = find (\<lambda>m. msg_id m = i) store"

text \<open>
  \<open>EngageMessages.find({ kind: { $in: ['auto', 'visitorAuto'] }, isLive: true })\<close>.
\<close>

definition findLive :: "message list \<Rightarrow> message list" where
  "findLive store =
     filter (\<lambda>m. (kind m = ''auto'' \<or> kind m = ''visitorAuto'') \<and> isLive m) store"

text \<open>
  The node-schedule runtime is outside the repository. \<open>schedule.scheduleJob(rule,
  callback)\<close> returns a job when it can make a schedule of the rule and \<open>null\<close> when
  it cannot. Which rules it accepts is decided by its parser: that decision is the
  parameter \<open>parses\<close> of the model, and the general theorems below hold for every
  parser. The
  runtime is the list of the jobs it has scheduled, a handle is a position in that list,
  and a job records the rule it was scheduled with, the message its callback sends
  (\<open>send(message)\<close>) and whether it was cancelled. \<open>job.cancel()\<close> stops the job and
  returns.
\<close>

record job =
  job_rule :: string
  job_message :: message
  cancelled :: bool

definition scheduleJob ::
  "(string \<Rightarrow> bool) \<Rightarrow> string \<Rightarrow> message \<Rightarrow> job list \<Rightarrow> nat option \<times> job list" where
  "scheduleJob parses r m js =
     (if parses r
      then (Some (length js), js @ [\<lparr>job_rule = r, job_message = m, cancelled = False\<rparr>])
      else (None, js))"

definition cancel :: "nat \<Rightarrow> job list \<Rightarrow> job list" where
  "cancel h js = (if h < length js then js[h := (js ! h)\<lparr>cancelled := True\<rparr>] else js)"

section \<open>The registry and its operations\<close>

text \<open>
  An element \<open>{ id, job }\<close> of \<open>ENGAGE_SCHEDULES\<close>, whose \<open>job\<close> is a handle or the
  \<open>null\<close> that \<open>scheduleJob\<close> returned, and the state the operations change: the
  registry and the runtime's jobs.
\<close>

record entry =
  entry_id :: string
  entry_job :: "nat option"

record state =
  ENGAGE_SCHEDULES :: "entry list"
  scheduledJobs :: "job list"

text \<open>
  \<open>createSchedule(message)\<close>. The argument is \<open>None\<close> when the caller passes the
  \<open>null\<close> that \<open>findOne\<close> returned: destructuring it throws a TypeError. An error of
  \<open>createScheduleRule\<close> propagates before anything is scheduled or pushed. What
  \<open>scheduleJob\<close> returns is pushed as it is, a handle or \<open>null\<close>. The result is the
  error thrown, if any, and the state after the call.
\<close>

definition createSchedule ::
  "(string \<Rightarrow> bool) \<Rightarrow> clock \<Rightarrow> message option \<Rightarrow> state \<Rightarrow> error option \<times> state" where
  "createSchedule parses now message_v st =
     (case message_v of
        None \<Rightarrow> (Some TypeError, st)
      | Some m \<Rightarrow>
          (case createScheduleRule now (scheduleDate m) of
             Inl e \<Rightarrow> (Some e, st)
           | Inr r \<Rightarrow>
               (case scheduleJob parses r m (scheduledJobs st) of
                  (j, js) \<Rightarrow>
                    (None, \<lparr>ENGAGE_SCHEDULES =
                              ENGAGE_SCHEDULES st @ [\<lparr>entry_id = msg_id m, entry_job = j\<rparr>],
                            scheduledJobs = js\<rparr>))))"

text \<open>\<open>Array.prototype.findIndex\<close>; \<open>None\<close> is the result \<open>-1\<close>.\<close>

fun findIndex :: "('a \<Rightarrow> bool) \<Rightarrow> 'a list \<Rightarrow> nat option" where
  "findIndex p [] = None"
| "findIndex p (x # xs) = (if p x then Some 0 else map_option Suc (findIndex p xs))"

text \<open>\<open>xs.splice(i, 1)\<close>: the array without its element at position \<open>i\<close>.\<close>

definition splice1 :: "nat \<Rightarrow> 'a list \<Rightarrow> 'a list" where
  "splice1 i xs = take i xs @ drop (Suc i) xs"

text \<open>
  \<open>updateOrRemoveSchedule({ _id }, update)\<close> is an async function. Its lines 72 to
  80 run when it is called: it returns (\<open>Done\<close>), or it throws and its promise is
  rejected (\<open>Failed\<close>: line 77 calls \<open>cancel\<close> on the \<open>job\<close> of the entry found, a
  TypeError when that is \<open>null\<close>, and line 78 is not reached), or it reaches the
  \<open>await\<close> of line 82 (\<open>AwaitFindOne\<close>).
\<close>

datatype progress = Done | Failed error | AwaitFindOne

definition removeSelected :: "string \<Rightarrow> bool \<Rightarrow> state \<Rightarrow> progress \<times> state" where
  "removeSelected i update st =
     (case findIndex (\<lambda>engage. entry_id engage = i) (ENGAGE_SCHEDULES st) of
        None \<Rightarrow> (Done, st)
      | Some selectedIndex \<Rightarrow>
          (case entry_job (ENGAGE_SCHEDULES st ! selectedIndex) of
             None \<Rightarrow> (Failed TypeError, st)
           | Some j \<Rightarrow>
               (let st1 = \<lparr>ENGAGE_SCHEDULES = splice1 selectedIndex (ENGAGE_SCHEDULES st),
                           scheduledJobs = cancel j (scheduledJobs st)\<rparr>
                in if update then (AwaitFindOne, st1) else (Done, st1))))"

text \<open>
  The whole call when nothing else runs during its \<open>await\<close>: after the lines above,
  \<open>findOne\<close> is answered from the store and line 84 calls \<open>createSchedule\<close> with the
  answer. A rejected promise is the error of the result.
\<close>

definition updateOrRemoveSchedule ::
  "(string \<Rightarrow> bool) \<Rightarrow> clock \<Rightarrow> message list \<Rightarrow> string \<Rightarrow> bool \<Rightarrow> state
     \<Rightarrow> error option \<times> state" where
  "updateOrRemoveSchedule parses now store i update st =
     (case removeSelected i update st of
        (Done, st1) \<Rightarrow> (None, st1)
      | (Failed e, st1) \<Rightarrow> (Some e, st1)
      | (AwaitFindOne, st1) \<Rightarrow> createSchedule parses now (findOne store i) st1)"

text \<open>
  The bootstrap \<open>initCronJob\<close>: the loop over the messages found. An error thrown by
  \<open>createSchedule\<close> leaves the loop, and the messages after it are not visited.
\<close>

fun createSchedules ::
  "(string \<Rightarrow> bool) \<Rightarrow> clock \<Rightarrow> message list \<Rightarrow> state \<Rightarrow> error option \<times> state" where
  "createSchedules parses now [] st = (None, st)"
| "createSchedules parses now (m # ms) st =
     (case createSchedule parses now (Some m) st of
        (Some e, st1) \<Rightarrow> (Some e, st1)
      | (None, st1) \<Rightarrow> createSchedules parses now ms st1)"

definition initCronJob ::
  "(string \<Rightarrow> bool) \<Rightarrow> clock \<Rightarrow> message list \<Rightarrow> state \<Rightarrow> error option \<times> state" where
  "initCronJob parses now store st = createSchedules parses now (findLive store) st"

text \<open>The state of a process that has just started: no entry, no job.\<close>

definition initial :: state where
  "initial = \<lparr>ENGAGE_SCHEDULES = [], scheduledJobs = []\<rparr>"

text \<open>The ids in the registry, in order.\<close>

definition ids :: "state \<Rightarrow> string list" where
  "ids st = map entry_id (ENGAGE_SCHEDULES st)"

section \<open>Sequences of calls\<close>

text \<open>
  The scheduler runs on one thread, and other calls can run while an update waits at its
  \<open>await\<close>. A process is the state together with the ids of the updates that wait for
  \<open>findOne\<close>. Its steps are: a call of \<open>createSchedule\<close>; a call of
  \<open>updateOrRemoveSchedule\<close>, up to its return, its throw or its \<open>await\<close>; the answer
  of \<open>findOne\<close> to the waiting update at a position, with the store contents at that
  time, after which that update calls \<open>createSchedule\<close>; and the loop of the bootstrap,
  with the messages its query found. A caller that gets an error goes on with the state
  the failed call left.
\<close>

record process =
  tracker :: state
  awaiting :: "string list"

datatype call =
    CreateSchedule clock "message option"
  | UpdateOrRemoveSchedule string bool
  | FindOneAnswered nat clock "message list"
  | InitCronJob clock "message list"

fun step :: "(string \<Rightarrow> bool) \<Rightarrow> call \<Rightarrow> process \<Rightarrow> process" where
  "step parses (CreateSchedule now m) p =
     p\<lparr>tracker := snd (createSchedule parses now m (tracker p))\<rparr>"
| "step parses (UpdateOrRemoveSchedule i update) p =
     (case removeSelected i update (tracker p) of
        (AwaitFindOne, st1) \<Rightarrow> \<lparr>tracker = st1, awaiting = awaiting p @ [i]\<rparr>
      | (Done, st1) \<Rightarrow> p\<lparr>tracker := st1\<rparr>
      | (Failed e, st1) \<Rightarrow> p\<lparr>tracker := st1\<rparr>)"
| "step parses (FindOneAnswered n now store) p =
     (if n < length (awaiting p)
      then \<lparr>tracker = snd (createSchedule parses now (findOne store (awaiting p ! n))
                            (tracker p)),
            awaiting = splice1 n (awaiting p)\<rparr>
      else p)"
| "step parses (InitCronJob now store) p =
     p\<lparr>tracker := snd (initCronJob parses now store (tracker p))\<rparr>"


text \<open>
  A step is fresh when it does not ask \<open>createSchedule\<close> for an id that the registry
  holds at that moment: a message whose id has no entry, directly or after the \<open>await\<close>
  of an update, or a bootstrap whose messages have pairwise different ids, none of them
  in the registry.
\<close>

fun fresh :: "call \<Rightarrow> process \<Rightarrow> bool" where
  "fresh (CreateSchedule now None) p = True"
| "fresh (CreateSchedule now (Some m)) p = (msg_id m \<notin> set (ids (tracker p)))"
| "fresh (UpdateOrRemoveSchedule i update) p = True"
| "fresh (FindOneAnswered n now store) p =
     (if n < length (awaiting p)
      then (case findOne store (awaiting p ! n) of
              None \<Rightarrow> True
            | Some m \<Rightarrow> msg_id m \<notin> set (ids (tracker p)))
      else True)"
| "fresh (InitCronJob now store) p =
     distinct (ids (tracker p) @ map msg_id (findLive store))"

fun admissible :: "(string \<Rightarrow> bool) \<Rightarrow> call list \<Rightarrow> process \<Rightarrow> bool" where
  "admissible parses [] p = True"
| "admissible parses (c # cs) p = (fresh c p \<and> admissible parses cs (step parses c p))"

text \<open>A process that has just started.\<close>

definition started :: process where
  "started = \<lparr>tracker = initial, awaiting = []\<rparr>"

section \<open>Concrete inputs\<close>

text \<open>
  The answers of node-schedule on the rules of the concrete inputs below: it parses
  \<open>30 14 15 * *\<close> and \<open>* * * 12 3\<close>, and it cannot parse the fallback rule
  \<open>* 45 23 * \<close> of line 30. No rule other than these three is
  given to this parser.
\<close>

definition parsesExample :: "string \<Rightarrow> bool" where
  "parsesExample r = (r = ''30 14 15 * *'' \<or> r = ''* * * 12 3'')"

text \<open>
  A monthly descriptor with a time, a descriptor with a time and no type, a weekly
  descriptor at midnight, the descriptor of the spec's midnight scenario, messages
  carrying them, a message with no descriptor, and registries built from them by the
  operations themselves.
\<close>

definition monthly :: scheduleDate where
  "monthly = \<lparr>sd_type = JStr ''month'', sd_time = TimeDate (Some (14, 30)),
               sd_day = JStr ''15'', sd_month = JUndefined\<rparr>"

definition timeOnly :: scheduleDate where
  "timeOnly = \<lparr>sd_type = JUndefined, sd_time = TimeDate (Some (9, 15)),
                sd_day = JUndefined, sd_month = JUndefined\<rparr>"

definition weekly :: scheduleDate where
  "weekly = \<lparr>sd_type = JStr ''3'', sd_time = TimeDate (Some (0, 0)),
              sd_day = JUndefined, sd_month = JNum 12\<rparr>"

definition midnight :: scheduleDate where
  "midnight = \<lparr>sd_type = JUndefined, sd_time = TimeDate (Some (0, 0)),
                sd_day = JUndefined, sd_month = JUndefined\<rparr>"

definition msgA :: message where
  "msgA = \<lparr>msg_id = ''a'', scheduleDate = Some monthly, kind = ''auto'', isLive = True\<rparr>"

definition msgA_edited :: message where
  "msgA_edited = \<lparr>msg_id = ''a'', scheduleDate = Some timeOnly, kind = ''auto'', isLive = True\<rparr>"

definition msgB :: message where
  "msgB = \<lparr>msg_id = ''b'', scheduleDate = Some weekly, kind = ''visitorAuto'', isLive = True\<rparr>"

definition msgX :: message where
  "msgX = \<lparr>msg_id = ''x'', scheduleDate = None, kind = ''auto'', isLive = True\<rparr>"

definition createdA :: state where
  "createdA = snd (createSchedule parsesExample (10, 0) (Some msgA) initial)"

definition createdAA :: state where
  "createdAA = snd (createSchedule parsesExample (10, 0) (Some msgA) createdA)"

definition createdABA :: state where
  "createdABA = snd (createSchedule parsesExample (10, 0) (Some msgA)
                  (snd (createSchedule parsesExample (10, 0) (Some msgB) createdA)))"

definition createdX :: state where
  "createdX = snd (createSchedule parsesExample (10, 0) (Some msgX) initial)"

section \<open>Auxiliary facts\<close>

lemmas eval_defs = createSchedule_def createScheduleRule_def ruleFields_def js_or_def
  scheduleJob_def cancel_def splice1_def initial_def updateOrRemoveSchedule_def
  removeSelected_def findOne_def findLive_def initCronJob_def ids_def string_of_int_def
  string_of_nat.simps digit_def parsesExample_def monthly_def timeOnly_def weekly_def
  midnight_def msgA_def msgA_edited_def msgB_def msgX_def

lemma rule_monthly: "createScheduleRule now (Some monthly) = Inr ''30 14 15 * *''"
  by (simp add: eval_defs)

lemma rule_weekly: "createScheduleRule now (Some weekly) = Inr ''* * * 12 3''"
  by (simp add: eval_defs)

lemma rule_timeOnly: "createScheduleRule now (Some timeOnly) = Inl TypeError"
  by (simp add: eval_defs)

lemma rule_absent: "createScheduleRule now None = Inr ''* 45 23 * ''"
  by (simp add: createScheduleRule_def)

lemma createdA_eq:
  "createdA = \<lparr>ENGAGE_SCHEDULES = [\<lparr>entry_id = ''a'', entry_job = Some 0\<rparr>],
     scheduledJobs = [\<lparr>job_rule = ''30 14 15 * *'', job_message = msgA, cancelled = False\<rparr>]\<rparr>"
  by (simp add: createdA_def createSchedule_def rule_monthly scheduleJob_def initial_def
      msgA_def parsesExample_def)

lemma createdAA_eq:
  "createdAA = \<lparr>ENGAGE_SCHEDULES = [\<lparr>entry_id = ''a'', entry_job = Some 0\<rparr>,
       \<lparr>entry_id = ''a'', entry_job = Some 1\<rparr>],
     scheduledJobs = [\<lparr>job_rule = ''30 14 15 * *'', job_message = msgA, cancelled = False\<rparr>,
       \<lparr>job_rule = ''30 14 15 * *'', job_message = msgA, cancelled = False\<rparr>]\<rparr>"
  by (simp add: createdAA_def createdA_eq createSchedule_def scheduleJob_def
      parsesExample_def msgA_def rule_monthly)

lemma createdABA_eq:
  "createdABA = \<lparr>ENGAGE_SCHEDULES = [\<lparr>entry_id = ''a'', entry_job = Some 0\<rparr>,
       \<lparr>entry_id = ''b'', entry_job = Some 1\<rparr>, \<lparr>entry_id = ''a'', entry_job = Some 2\<rparr>],
     scheduledJobs = [\<lparr>job_rule = ''30 14 15 * *'', job_message = msgA, cancelled = False\<rparr>,
       \<lparr>job_rule = ''* * * 12 3'', job_message = msgB, cancelled = False\<rparr>,
       \<lparr>job_rule = ''30 14 15 * *'', job_message = msgA, cancelled = False\<rparr>]\<rparr>"
  by (simp add: createdABA_def createdA_def createSchedule_def rule_monthly rule_weekly
      scheduleJob_def initial_def msgA_def msgB_def parsesExample_def)

lemma createdX_eq:
  "createdX = \<lparr>ENGAGE_SCHEDULES = [\<lparr>entry_id = ''x'', entry_job = None\<rparr>],
     scheduledJobs = []\<rparr>"
  by (simp add: createdX_def createSchedule_def rule_absent scheduleJob_def initial_def
      msgX_def parsesExample_def)

lemma findIndex_Some:
  "findIndex p xs = Some i \<Longrightarrow> i < length xs \<and> p (xs ! i) \<and> (\<forall>j<i. \<not> p (xs ! j))"
proof (induction xs arbitrary: i)
  case Nil
  then show ?case by simp
next
  case (Cons x xs)
  show ?case
  proof (cases "p x")
    case True
    with Cons.prems show ?thesis by simp
  next
    case False
    with Cons.prems obtain k where k: "findIndex p xs = Some k" "i = Suc k"
      by auto
    from Cons.IH [OF k(1)] False k(2) show ?thesis
      by (auto simp: less_Suc_eq_0_disj)
  qed
qed

lemma findIndex_None: "(findIndex p xs = None) = (\<forall>x\<in>set xs. \<not> p x)"
  by (induction xs) auto

lemma splice1_Cons_0: "splice1 0 (x # xs) = xs"
  by (simp add: splice1_def)

lemma splice1_Cons_Suc: "splice1 (Suc i) (x # xs) = x # splice1 i xs"
  by (simp add: splice1_def)

lemma map_splice1: "map f (splice1 i xs) = splice1 i (map f xs)"
  by (simp add: splice1_def take_map drop_map)

lemma set_splice1: "set (splice1 i xs) \<subseteq> set xs"
  unfolding splice1_def using set_take_subset [of i xs] set_drop_subset [of "Suc i" xs]
  by auto

lemma length_splice1: "k < length xs \<Longrightarrow> length (splice1 k xs) = length xs - 1"
  by (simp add: splice1_def)

lemma distinct_splice1: "distinct xs \<Longrightarrow> distinct (splice1 i xs)"
proof (induction xs arbitrary: i)
  case Nil
  then show ?case by (simp add: splice1_def)
next
  case (Cons x xs)
  show ?case
  proof (cases i)
    case 0
    with Cons.prems show ?thesis by (simp add: splice1_Cons_0)
  next
    case (Suc k)
    with Cons set_splice1 [of k xs] show ?thesis
      by (auto simp: splice1_Cons_Suc)
  qed
qed

lemma distinct_splice1_notin:
  "distinct xs \<Longrightarrow> i < length xs \<Longrightarrow> xs ! i \<notin> set (splice1 i xs)"
proof (induction xs arbitrary: i)
  case Nil
  then show ?case by simp
next
  case (Cons x xs)
  show ?case
  proof (cases i)
    case 0
    with Cons.prems show ?thesis by (simp add: splice1_Cons_0)
  next
    case (Suc k)
    with Cons show ?thesis
      by (auto simp: splice1_Cons_Suc)
  qed
qed

lemma filter_splice1:
  "findIndex p xs = Some k \<Longrightarrow> filter p xs = xs ! k # filter p (splice1 k xs)"
proof (induction xs arbitrary: k)
  case Nil
  then show ?case by simp
next
  case (Cons x xs)
  show ?case
  proof (cases "p x")
    case True
    with Cons.prems show ?thesis by (simp add: splice1_Cons_0)
  next
    case False
    with Cons.prems obtain j where j: "findIndex p xs = Some j" "k = Suc j"
      by auto
    from Cons.IH [OF j(1)] False j(2) show ?thesis
      by (simp add: splice1_Cons_Suc)
  qed
qed

lemma length_cancel: "length (cancel h js) = length js"
  by (simp add: cancel_def)

lemma nth_cancel:
  "n < length js \<Longrightarrow>
   cancel h js ! n = (if n = h then (js ! n)\<lparr>cancelled := True\<rparr> else js ! n)"
  by (simp add: cancel_def)

lemma findOne_id: "findOne store i = Some m \<Longrightarrow> msg_id m = i"
  by (auto simp: findOne_def find_Some_iff)

lemma findIndex_None_ids:
  "(findIndex (\<lambda>engage. entry_id engage = i) (ENGAGE_SCHEDULES st) = None) = (i \<notin> set (ids st))"
  by (auto simp: findIndex_None ids_def)

text \<open>What the lines before the \<open>await\<close> do, case by case.\<close>

lemma removeSelected_absent:
  "i \<notin> set (ids st) \<Longrightarrow> removeSelected i update st = (Done, st)"
  using findIndex_None_ids [of i st] by (simp add: removeSelected_def)

lemma removeSelected_null:
  "findIndex (\<lambda>engage. entry_id engage = i) (ENGAGE_SCHEDULES st) = Some k \<Longrightarrow>
   entry_job (ENGAGE_SCHEDULES st ! k) = None \<Longrightarrow>
   removeSelected i update st = (Failed TypeError, st)"
  by (simp add: removeSelected_def)

lemma removeSelected_found:
  "findIndex (\<lambda>engage. entry_id engage = i) (ENGAGE_SCHEDULES st) = Some k \<Longrightarrow>
   entry_job (ENGAGE_SCHEDULES st ! k) = Some j \<Longrightarrow>
   removeSelected i update st =
     (if update then AwaitFindOne else Done,
      \<lparr>ENGAGE_SCHEDULES = splice1 k (ENGAGE_SCHEDULES st),
       scheduledJobs = cancel j (scheduledJobs st)\<rparr>)"
  by (simp add: removeSelected_def)

lemma ids_removeSelected:
  "ids (snd (removeSelected i update st)) = ids st
   \<or> (\<exists>k. k < length (ids st) \<and> ids st ! k = i
          \<and> ids (snd (removeSelected i update st)) = splice1 k (ids st))"
proof (cases "findIndex (\<lambda>engage. entry_id engage = i) (ENGAGE_SCHEDULES st)")
  case None
  then show ?thesis by (simp add: removeSelected_def)
next
  case (Some k)
  from findIndex_Some [OF Some] have k: "k < length (ids st)" "ids st ! k = i"
    by (simp_all add: ids_def)
  show ?thesis
  proof (cases "entry_job (ENGAGE_SCHEDULES st ! k)")
    case None
    with Some show ?thesis by (simp add: removeSelected_null)
  next
    case (Some j)
    with \<open>findIndex (\<lambda>engage. entry_id engage = i) (ENGAGE_SCHEDULES st) = Some k\<close>
    have "ids (snd (removeSelected i update st)) = splice1 k (ids st)"
      by (simp add: removeSelected_found ids_def map_splice1)
    with k show ?thesis by blast
  qed
qed

lemma distinct_removeSelected:
  assumes "distinct (ids st)"
  shows "distinct (ids (snd (removeSelected i update st)))"
  using ids_removeSelected [of i update st] assms by (auto simp: distinct_splice1)

lemma removeSelected_await_notin:
  assumes "distinct (ids st)" and "removeSelected i update st = (AwaitFindOne, st1)"
  shows "i \<notin> set (ids st1)"
proof (cases "findIndex (\<lambda>engage. entry_id engage = i) (ENGAGE_SCHEDULES st)")
  case None
  with assms(2) show ?thesis by (simp add: removeSelected_def)
next
  case (Some k)
  from findIndex_Some [OF Some] have k: "k < length (ids st)" "ids st ! k = i"
    by (simp_all add: ids_def)
  show ?thesis
  proof (cases "entry_job (ENGAGE_SCHEDULES st ! k)")
    case None
    with Some assms(2) show ?thesis by (simp add: removeSelected_null)
  next
    case (Some j)
    with \<open>findIndex (\<lambda>engage. entry_id engage = i) (ENGAGE_SCHEDULES st) = Some k\<close> assms(2)
    have "ids st1 = splice1 k (ids st)"
      by (auto simp: removeSelected_found ids_def map_splice1 split: if_splits)
    with distinct_splice1_notin [OF assms(1) k(1)] k(2) show ?thesis by simp
  qed
qed

text \<open>What \<open>createSchedule\<close> adds.\<close>

lemma ids_createSchedule:
  "ids (snd (createSchedule parses now mv st)) =
     (case mv of
        None \<Rightarrow> ids st
      | Some m \<Rightarrow> (case createScheduleRule now (scheduleDate m) of
                     Inl e \<Rightarrow> ids st | Inr r \<Rightarrow> ids st @ [msg_id m]))"
  by (simp add: createSchedule_def ids_def scheduleJob_def split: option.splits sum.splits)

lemma createSchedule_appends:
  "\<exists>es js. ENGAGE_SCHEDULES (snd (createSchedule parses now mv st)) = ENGAGE_SCHEDULES st @ es
     \<and> scheduledJobs (snd (createSchedule parses now mv st)) = scheduledJobs st @ js"
  by (simp add: createSchedule_def scheduleJob_def split: option.splits sum.splits)

lemma createSchedule_null: "createSchedule parses now None st = (Some TypeError, st)"
  by (simp add: createSchedule_def)

lemma distinct_createSchedule:
  assumes "distinct (ids st)"
    and "case mv of None \<Rightarrow> True | Some m \<Rightarrow> msg_id m \<notin> set (ids st)"
  shows "distinct (ids (snd (createSchedule parses now mv st)))"
  using assms by (cases mv) (auto simp: ids_createSchedule split: sum.splits)

lemma distinct_updateOrRemoveSchedule:
  assumes "distinct (ids st)"
  shows "distinct (ids (snd (updateOrRemoveSchedule parses now store i update st)))"
proof -
  obtain pr st1 where r: "removeSelected i update st = (pr, st1)"
    by (cases "removeSelected i update st")
  from distinct_removeSelected [OF assms, of i update] r have d1: "distinct (ids st1)"
    by simp
  show ?thesis
  proof (cases pr)
    case Done
    with r d1 show ?thesis by (simp add: updateOrRemoveSchedule_def)
  next
    case (Failed e)
    with r d1 show ?thesis by (simp add: updateOrRemoveSchedule_def)
  next
    case AwaitFindOne
    with r removeSelected_await_notin [OF assms] have notin: "i \<notin> set (ids st1)"
      by simp
    have "case findOne store i of None \<Rightarrow> True | Some m \<Rightarrow> msg_id m \<notin> set (ids st1)"
      using notin findOne_id [of store i] by (auto split: option.splits)
    from distinct_createSchedule [OF d1 this] AwaitFindOne r show ?thesis
      by (simp add: updateOrRemoveSchedule_def)
  qed
qed



section \<open>The rule compiler\<close>

text \<open>
  Claim C1 (createScheduleRule is total and never fails, also for a descriptor with a
  time and no type). On the code a descriptor whose \<open>time\<close> is a date and whose \<open>type\<close>
  is absent passes the guard of line 29, and line 43 then reads \<open>.length\<close> of
  \<open>undefined\<close>: whatever the clock, the date, the day and the month, the call throws a
  TypeError and returns no expression.
\<close>

theorem createScheduleRule_throws_without_type: "createScheduleRule now
     (Some \<lparr>sd_type = JUndefined, sd_time = TimeDate d, sd_day = dy, sd_month = mo\<rparr>)
   = Inl TypeError"
  by (simp add: createScheduleRule_def ruleFields_def)

text \<open>
  Claim C2 (a time of 14:30 with type, month and day unset compiles to
  \<open>30 14 * * *\<close>). On the code this descriptor throws the TypeError of line 43, so the
  result is not that expression.
\<close>

theorem createScheduleRule_time_only_not_compiled: "createScheduleRule now
     (Some \<lparr>sd_type = JUndefined, sd_time = TimeDate (Some (14, 30)), sd_day = JUndefined,
            sd_month = JUndefined\<rparr>) = Inl TypeError
   \<and> createScheduleRule now
     (Some \<lparr>sd_type = JUndefined, sd_time = TimeDate (Some (14, 30)), sd_day = JUndefined,
            sd_month = JUndefined\<rparr>) \<noteq> Inr ''30 14 * * *''"
  by (simp add: createScheduleRule_def ruleFields_def)

text \<open>
  Claim C4 (with a type and no time, minute and hour are both the wildcard). On the code
  \<open>moment(undefined)\<close> is the current time: at 14:30 a monthly descriptor for day 15
  with no time compiles to minute 30 and hour 14.
\<close>

theorem createScheduleRule_absent_time_reads_clock: "createScheduleRule (14, 30)
     (Some \<lparr>sd_type = JStr ''month'', sd_time = TimeUndefined, sd_day = JStr ''15'',
            sd_month = JUndefined\<rparr>) = Inr ''30 14 15 * *''"
  by (simp add: eval_defs)

text \<open>
  Claim C5 (on the extraction path an extracted hour or minute of 0 gives the field
  \<open>*\<close> of the compiled expression). The descriptor of the spec's midnight scenario, a
  time of 00:00 with no type, is on the extraction path and its hour and minute are
  extracted as 0, but no expression is compiled: line 43 throws the TypeError of claim
  C1.
\<close>

theorem midnight_without_type_throws:
  "time_truthy (sd_time midnight)
   \<and> hour (moment now (sd_time midnight)) = JNum 0
   \<and> minute (moment now (sd_time midnight)) = JNum 0
   \<and> createScheduleRule now (Some midnight) = Inl TypeError"
  by (simp add: midnight_def createScheduleRule_def ruleFields_def)

text \<open>
  Where the extraction path reaches line 63, a zero hour and a zero minute are the
  wildcard among the five fields that the template prints.
\<close>

lemma zero_fields_are_wildcards:
  assumes "truthy (sd_type sd) \<or> time_truthy (sd_time sd)"
    and "ruleFields now sd = Inr (mi, h, d, mo, dw)"
  shows "createScheduleRule now (Some sd) = Inr (template (mi, h, d, mo, dw))
         \<and> (hour (moment now (sd_time sd)) = JNum 0 \<longrightarrow> h = JStr ''*'')
         \<and> (minute (moment now (sd_time sd)) = JNum 0 \<longrightarrow> mi = JStr ''*'')"
proof -
  from assms have "createScheduleRule now (Some sd) = Inr (template (mi, h, d, mo, dw))"
    by (auto simp: createScheduleRule_def)
  moreover from assms(2) have "h = js_or (hour (moment now (sd_time sd))) (JStr ''*'')"
    and "mi = js_or (minute (moment now (sd_time sd))) (JStr ''*'')"
    by (auto simp: ruleFields_def Let_def split: sum.splits)
  ultimately show ?thesis by (simp add: js_or_def)
qed

section \<open>The registry\<close>




text \<open>
  A removal that throws leaves its entry, so a later \<open>createSchedule\<close> for the same id
  is not fresh; and an update that nothing interrupts keeps the ids pairwise different
  (lemma \<open>distinct_updateOrRemoveSchedule\<close>).
\<close>

lemma create_after_failed_removal_not_fresh:
  "\<not> admissible parsesExample
      [CreateSchedule (10, 0) (Some msgX), UpdateOrRemoveSchedule ''x'' False,
       CreateSchedule (10, 0) (Some msgX)] started"
  by (simp add: started_def createSchedule_def rule_absent scheduleJob_def initial_def
      msgX_def ids_def removeSelected_def parsesExample_def)

text \<open>The whole call, case by case, when nothing runs during its \<open>await\<close>.\<close>

lemma remove_absent:
  "i \<notin> set (ids st) \<Longrightarrow> updateOrRemoveSchedule parses now store i update st = (None, st)"
  by (simp add: updateOrRemoveSchedule_def removeSelected_absent)

lemma remove_found:
  "findIndex (\<lambda>engage. entry_id engage = i) (ENGAGE_SCHEDULES st) = Some k \<Longrightarrow>
   entry_job (ENGAGE_SCHEDULES st ! k) = Some j \<Longrightarrow>
   updateOrRemoveSchedule parses now store i False st =
     (None, \<lparr>ENGAGE_SCHEDULES = splice1 k (ENGAGE_SCHEDULES st),
             scheduledJobs = cancel j (scheduledJobs st)\<rparr>)"
  by (simp add: updateOrRemoveSchedule_def removeSelected_found)

lemma update_found:
  "findIndex (\<lambda>engage. entry_id engage = i) (ENGAGE_SCHEDULES st) = Some k \<Longrightarrow>
   entry_job (ENGAGE_SCHEDULES st ! k) = Some j \<Longrightarrow>
   updateOrRemoveSchedule parses now store i True st =
     createSchedule parses now (findOne store i)
       \<lparr>ENGAGE_SCHEDULES = splice1 k (ENGAGE_SCHEDULES st),
        scheduledJobs = cancel j (scheduledJobs st)\<rparr>"
  by (simp add: updateOrRemoveSchedule_def removeSelected_found)

lemma found_job_not_null:
  assumes "findIndex (\<lambda>engage. entry_id engage = i) (ENGAGE_SCHEDULES st) = Some k"
    and "\<lparr>entry_id = i, entry_job = None\<rparr> \<notin> set (ENGAGE_SCHEDULES st)"
  shows "\<exists>j. entry_job (ENGAGE_SCHEDULES st ! k) = Some j"
proof (cases "entry_job (ENGAGE_SCHEDULES st ! k)")
  case None
  from findIndex_Some [OF assms(1)] have k: "k < length (ENGAGE_SCHEDULES st)"
    and idk: "entry_id (ENGAGE_SCHEDULES st ! k) = i" by simp_all
  from idk None have "ENGAGE_SCHEDULES st ! k = \<lparr>entry_id = i, entry_job = None\<rparr>"
    by (cases "ENGAGE_SCHEDULES st ! k") simp
  with k assms(2) show ?thesis by (metis nth_mem)
next
  case (Some j)
  then show ?thesis by blast
qed

text \<open>
  Claim C6 (an id with no entry is a no-op, so removing twice in a row is safe), as
  amended: with an id that has no entry \<open>updateOrRemoveSchedule\<close> returns without an
  error and leaves the state as it was; and when the registry holds at most one entry for
  the id, and none whose job is \<open>null\<close>, the first removal returns without an error and
  a second removal right after it is such a no-op.
\<close>

theorem remove_unknown_id_is_noop:
  "(i \<notin> set (ids st) \<longrightarrow> updateOrRemoveSchedule parses now store i update st = (None, st))
   \<and> (length (filter (\<lambda>engage. entry_id engage = i) (ENGAGE_SCHEDULES st)) \<le> 1
        \<and> \<lparr>entry_id = i, entry_job = None\<rparr> \<notin> set (ENGAGE_SCHEDULES st) \<longrightarrow>
        fst (updateOrRemoveSchedule parses now store i False st) = None
        \<and> updateOrRemoveSchedule parses2 now2 store2 i False
            (snd (updateOrRemoveSchedule parses now store i False st))
          = (None, snd (updateOrRemoveSchedule parses now store i False st)))"
proof (rule conjI; rule impI)
  assume "i \<notin> set (ids st)"
  then show "updateOrRemoveSchedule parses now store i update st = (None, st)"
    by (rule remove_absent)
next
  let ?p = "\<lambda>engage. entry_id engage = i"
  let ?st1 = "snd (updateOrRemoveSchedule parses now store i False st)"
  assume "length (filter ?p (ENGAGE_SCHEDULES st)) \<le> 1
    \<and> \<lparr>entry_id = i, entry_job = None\<rparr> \<notin> set (ENGAGE_SCHEDULES st)"
  then have le: "length (filter ?p (ENGAGE_SCHEDULES st)) \<le> 1"
    and nonull: "\<lparr>entry_id = i, entry_job = None\<rparr> \<notin> set (ENGAGE_SCHEDULES st)"
    by simp_all
  have "fst (updateOrRemoveSchedule parses now store i False st) = None
    \<and> i \<notin> set (ids ?st1)"
  proof (cases "findIndex ?p (ENGAGE_SCHEDULES st)")
    case None
    then have "i \<notin> set (ids st)" by (simp add: findIndex_None_ids)
    then show ?thesis by (simp add: remove_absent)
  next
    case (Some k)
    from found_job_not_null [OF Some nonull] obtain j where
      j: "entry_job (ENGAGE_SCHEDULES st ! k) = Some j" by blast
    from filter_splice1 [OF Some] le
    have "filter ?p (splice1 k (ENGAGE_SCHEDULES st)) = []" by simp
    then have "i \<notin> set (map entry_id (splice1 k (ENGAGE_SCHEDULES st)))"
      by (auto simp: filter_empty_conv)
    then show ?thesis by (simp add: remove_found [OF Some j] ids_def)
  qed
  then show "fst (updateOrRemoveSchedule parses now store i False st) = None
    \<and> updateOrRemoveSchedule parses2 now2 store2 i False ?st1 = (None, ?st1)"
    by (simp add: remove_absent)
qed

theorem remove_unknown_id_is_noop_witness:
  "''b'' \<notin> set (ids createdA)
   \<and> updateOrRemoveSchedule parsesExample (10, 0) [] ''b'' True createdA = (None, createdA)
   \<and> length (filter (\<lambda>engage. entry_id engage = ''a'') (ENGAGE_SCHEDULES createdA)) \<le> 1
   \<and> \<lparr>entry_id = ''a'', entry_job = None\<rparr> \<notin> set (ENGAGE_SCHEDULES createdA)
   \<and> updateOrRemoveSchedule parsesExample (11, 0) [] ''a'' False
        (snd (updateOrRemoveSchedule parsesExample (10, 0) [] ''a'' False createdA))
      = (None, snd (updateOrRemoveSchedule parsesExample (10, 0) [] ''a'' False createdA))"
proof -
  have h1: "''b'' \<notin> set (ids createdA)"
    by (simp add: createdA_eq ids_def)
  have h2: "length (filter (\<lambda>engage. entry_id engage = ''a'') (ENGAGE_SCHEDULES createdA)) \<le> 1"
    by (simp add: createdA_eq)
  have h3: "\<lparr>entry_id = ''a'', entry_job = None\<rparr> \<notin> set (ENGAGE_SCHEDULES createdA)"
    by (simp add: createdA_eq)
  from remove_unknown_id_is_noop [of "''b''" createdA parsesExample "(10, 0)" "[]" True] h1
  have c1: "updateOrRemoveSchedule parsesExample (10, 0) [] ''b'' True createdA
      = (None, createdA)"
    by simp
  from remove_unknown_id_is_noop
    [of "''a''" createdA parsesExample "(10, 0)" "[]" True parsesExample "(11, 0)" "[]"] h2 h3
  have c2: "updateOrRemoveSchedule parsesExample (11, 0) [] ''a'' False
        (snd (updateOrRemoveSchedule parsesExample (10, 0) [] ''a'' False createdA))
      = (None, snd (updateOrRemoveSchedule parsesExample (10, 0) [] ''a'' False createdA))"
    by simp
  from h1 h2 h3 c1 c2 show ?thesis by simp
qed

text \<open>
  Claim C6 as stated fails in two ways. On a registry with two entries for the id, the
  first removal leaves one of them and the second removal takes that one out. On a
  registry whose one entry for the id has the \<open>null\<close> job of the fallback rule, the
  first removal throws and removes nothing, and so does the second.
\<close>

theorem second_removal_is_not_a_noop:
  "ids (snd (updateOrRemoveSchedule parsesExample (10, 0) [] ''a'' False createdAA)) = [''a'']
   \<and> ids (snd (updateOrRemoveSchedule parsesExample (10, 0) [] ''a'' False
             (snd (updateOrRemoveSchedule parsesExample (10, 0) [] ''a'' False createdAA)))) = []
   \<and> updateOrRemoveSchedule parsesExample (10, 0) [] ''x'' False createdX
       = (Some TypeError, createdX)
   \<and> updateOrRemoveSchedule parsesExample (10, 0) [] ''x'' False
        (snd (updateOrRemoveSchedule parsesExample (10, 0) [] ''x'' False createdX))
       = (Some TypeError, createdX)"
  by (simp add: createdAA_eq createdX_eq updateOrRemoveSchedule_def removeSelected_def
      splice1_def cancel_def ids_def)

text \<open>
  Claim C9 (an update whose message is gone from the store raises an error and leaves
  the entry removed), as amended: when the first entry with the id has a job handle and
  the store has no message for the id, the lines before the \<open>await\<close> cancel that job
  and remove that entry; \<open>createSchedule\<close> then throws a TypeError on the \<open>null\<close>
  that \<open>findOne\<close> answered and changes nothing, whatever state it runs in; so the
  update ends with the error and the state of a plain removal: one entry fewer for the
  id, one entry fewer in all, and no job added to the runtime.
\<close>

theorem update_of_missing_message_fails:
  assumes "findIndex (\<lambda>engage. entry_id engage = i) (ENGAGE_SCHEDULES st) = Some k"
    and "entry_job (ENGAGE_SCHEDULES st ! k) = Some j"
    and "findOne store i = None"
  shows "removeSelected i True st =
      (AwaitFindOne, \<lparr>ENGAGE_SCHEDULES = splice1 k (ENGAGE_SCHEDULES st),
                      scheduledJobs = cancel j (scheduledJobs st)\<rparr>)
    \<and> createSchedule parses now (findOne store i) st2 = (Some TypeError, st2)
    \<and> fst (updateOrRemoveSchedule parses now store i True st) = Some TypeError
    \<and> snd (updateOrRemoveSchedule parses now store i True st)
        = snd (updateOrRemoveSchedule parses now store i False st)
    \<and> Suc (length (ENGAGE_SCHEDULES (snd (updateOrRemoveSchedule parses now store i True st))))
        = length (ENGAGE_SCHEDULES st)
    \<and> Suc (length (filter (\<lambda>engage. entry_id engage = i)
          (ENGAGE_SCHEDULES (snd (updateOrRemoveSchedule parses now store i True st)))))
        = length (filter (\<lambda>engage. entry_id engage = i) (ENGAGE_SCHEDULES st))
    \<and> length (scheduledJobs (snd (updateOrRemoveSchedule parses now store i True st)))
        = length (scheduledJobs st)"
proof -
  from findIndex_Some [OF assms(1)] have klen: "k < length (ENGAGE_SCHEDULES st)" by simp
  then have pos: "0 < length (ENGAGE_SCHEDULES st)" by linarith
  have u: "updateOrRemoveSchedule parses now store i True st =
      (Some TypeError,
       \<lparr>ENGAGE_SCHEDULES = splice1 k (ENGAGE_SCHEDULES st),
        scheduledJobs = cancel j (scheduledJobs st)\<rparr>)"
    by (simp add: update_found [OF assms(1,2)] assms(3) createSchedule_null)
  from u remove_found [OF assms(1,2)] length_splice1 [OF klen] pos
    filter_splice1 [OF assms(1)] removeSelected_found [OF assms(1,2), of True]
  show ?thesis
    by (simp add: length_cancel assms(3) createSchedule_null)
qed

theorem update_of_missing_message_fails_witness:
  "findIndex (\<lambda>engage. entry_id engage = ''a'') (ENGAGE_SCHEDULES createdA) = Some 0
   \<and> entry_job (ENGAGE_SCHEDULES createdA ! 0) = Some 0
   \<and> findOne [msgB] ''a'' = None
   \<and> updateOrRemoveSchedule parsesExample (10, 0) [msgB] ''a'' True createdA =
      (Some TypeError,
       \<lparr>ENGAGE_SCHEDULES = [],
        scheduledJobs = [\<lparr>job_rule = ''30 14 15 * *'', job_message = msgA, cancelled = True\<rparr>]\<rparr>)"
proof -
  have h1: "findIndex (\<lambda>engage. entry_id engage = ''a'') (ENGAGE_SCHEDULES createdA) = Some 0"
    by (simp add: createdA_eq)
  have h2: "entry_job (ENGAGE_SCHEDULES createdA ! 0) = Some 0"
    by (simp add: createdA_eq)
  have h3: "findOne [msgB] ''a'' = None"
    by (simp add: findOne_def msgB_def)
  have r: "snd (updateOrRemoveSchedule parsesExample (10, 0) [msgB] ''a'' False createdA) =
      \<lparr>ENGAGE_SCHEDULES = [],
       scheduledJobs = [\<lparr>job_rule = ''30 14 15 * *'', job_message = msgA, cancelled = True\<rparr>]\<rparr>"
    by (simp add: createdA_eq updateOrRemoveSchedule_def removeSelected_def splice1_def
        cancel_def)
  from update_of_missing_message_fails [OF h1 h2 h3, of parsesExample "(10, 0)"] r h1 h2 h3
  show ?thesis
    by (simp add: prod_eq_iff)
qed

text \<open>
  Claim C9 as stated fails when the entry found has the \<open>null\<close> job of the fallback
  rule: the update throws at line 77, before the removal, and the entry stays in the
  registry.
\<close>

theorem update_on_null_job_removes_nothing:
  "ids createdX = [''x''] \<and> findOne [] ''x'' = None
   \<and> updateOrRemoveSchedule parsesExample (10, 0) [] ''x'' True createdX
       = (Some TypeError, createdX)"
  by (simp add: createdX_eq updateOrRemoveSchedule_def removeSelected_def ids_def
      findOne_def)

text \<open>
  Claim C10 (a call that finds an entry cancels and removes exactly that one), as
  amended: when the first entry with the id has a job handle, the lines before the
  \<open>await\<close> remove that one entry and cancel its job; the registry after the call
  starts with the old registry without that entry, in the old order (and is exactly that
  when \<open>update\<close> is false; an update can only append); and among the jobs the runtime
  had, the job of the removed entry is cancelled and every other job is as it was.
\<close>

theorem removes_first_matching_entry_only:
  assumes "findIndex (\<lambda>engage. entry_id engage = i) (ENGAGE_SCHEDULES st) = Some k"
    and "entry_job (ENGAGE_SCHEDULES st ! k) = Some j"
  shows "k < length (ENGAGE_SCHEDULES st) \<and> entry_id (ENGAGE_SCHEDULES st ! k) = i
    \<and> (\<forall>n<k. entry_id (ENGAGE_SCHEDULES st ! n) \<noteq> i)
    \<and> snd (removeSelected i update st) =
        \<lparr>ENGAGE_SCHEDULES = take k (ENGAGE_SCHEDULES st) @ drop (Suc k) (ENGAGE_SCHEDULES st),
         scheduledJobs = cancel j (scheduledJobs st)\<rparr>
    \<and> take (length (ENGAGE_SCHEDULES st) - 1)
          (ENGAGE_SCHEDULES (snd (updateOrRemoveSchedule parses now store i update st)))
        = take k (ENGAGE_SCHEDULES st) @ drop (Suc k) (ENGAGE_SCHEDULES st)
    \<and> (\<not> update \<longrightarrow>
          ENGAGE_SCHEDULES (snd (updateOrRemoveSchedule parses now store i update st))
            = take k (ENGAGE_SCHEDULES st) @ drop (Suc k) (ENGAGE_SCHEDULES st))
    \<and> (\<forall>n<length (scheduledJobs st).
          scheduledJobs (snd (updateOrRemoveSchedule parses now store i update st)) ! n
            = (if n = j then (scheduledJobs st ! n)\<lparr>cancelled := True\<rparr>
               else scheduledJobs st ! n))"
proof -
  let ?reg = "ENGAGE_SCHEDULES st"
  let ?st1 = "\<lparr>ENGAGE_SCHEDULES = splice1 k ?reg,
               scheduledJobs = cancel j (scheduledJobs st)\<rparr>"
  let ?st2 = "snd (updateOrRemoveSchedule parses now store i update st)"
  from findIndex_Some [OF assms(1)]
  have first: "k < length ?reg \<and> entry_id (?reg ! k) = i \<and> (\<forall>n<k. entry_id (?reg ! n) \<noteq> i)"
    by simp
  have sync: "snd (removeSelected i update st) =
      \<lparr>ENGAGE_SCHEDULES = take k ?reg @ drop (Suc k) ?reg,
       scheduledJobs = cancel j (scheduledJobs st)\<rparr>"
    by (simp add: removeSelected_found [OF assms] splice1_def)
  have "\<exists>es js. ENGAGE_SCHEDULES ?st2 = splice1 k ?reg @ es
      \<and> scheduledJobs ?st2 = cancel j (scheduledJobs st) @ js
      \<and> (\<not> update \<longrightarrow> es = [])"
  proof (cases update)
    case True
    with update_found [OF assms, of parses now store]
      createSchedule_appends [of parses now "findOne store i" ?st1]
    show ?thesis by auto
  next
    case False
    with remove_found [OF assms, of parses now store] show ?thesis by simp
  qed
  then obtain es js where es: "ENGAGE_SCHEDULES ?st2 = splice1 k ?reg @ es"
    and js: "scheduledJobs ?st2 = cancel j (scheduledJobs st) @ js"
    and noup: "\<not> update \<longrightarrow> es = []"
    by blast
  from first have len: "length (splice1 k ?reg) = length ?reg - 1"
    by (simp add: length_splice1)
  have a: "take (length ?reg - 1) (ENGAGE_SCHEDULES ?st2) = take k ?reg @ drop (Suc k) ?reg"
    using len by (simp add: es) (simp add: splice1_def)
  have b: "\<not> update \<longrightarrow> ENGAGE_SCHEDULES ?st2 = take k ?reg @ drop (Suc k) ?reg"
  proof
    assume "\<not> update"
    with noup have "es = []" by simp
    with es show "ENGAGE_SCHEDULES ?st2 = take k ?reg @ drop (Suc k) ?reg"
      by (simp add: splice1_def)
  qed
  have c: "\<forall>n<length (scheduledJobs st). scheduledJobs ?st2 ! n
      = (if n = j then (scheduledJobs st ! n)\<lparr>cancelled := True\<rparr>
         else scheduledJobs st ! n)"
    by (simp add: js nth_append length_cancel nth_cancel)
  from first sync a b c show ?thesis by blast
qed

theorem removes_first_matching_entry_only_witness:
  "findIndex (\<lambda>engage. entry_id engage = ''a'') (ENGAGE_SCHEDULES createdABA) = Some 0
   \<and> entry_job (ENGAGE_SCHEDULES createdABA ! 0) = Some 0
   \<and> updateOrRemoveSchedule parsesExample (10, 0) [] ''a'' False createdABA =
      (None,
       \<lparr>ENGAGE_SCHEDULES = [\<lparr>entry_id = ''b'', entry_job = Some 1\<rparr>,
          \<lparr>entry_id = ''a'', entry_job = Some 2\<rparr>],
        scheduledJobs = [\<lparr>job_rule = ''30 14 15 * *'', job_message = msgA, cancelled = True\<rparr>,
          \<lparr>job_rule = ''* * * 12 3'', job_message = msgB, cancelled = False\<rparr>,
          \<lparr>job_rule = ''30 14 15 * *'', job_message = msgA, cancelled = False\<rparr>]\<rparr>)
   \<and> ENGAGE_SCHEDULES (snd (updateOrRemoveSchedule parsesExample (10, 0) [] ''a'' False
         createdABA))
       = take 0 (ENGAGE_SCHEDULES createdABA) @ drop (Suc 0) (ENGAGE_SCHEDULES createdABA)"
proof -
  have h: "findIndex (\<lambda>engage. entry_id engage = ''a'') (ENGAGE_SCHEDULES createdABA) = Some 0"
    by (simp add: createdABA_eq)
  have hj: "entry_job (ENGAGE_SCHEDULES createdABA ! 0) = Some 0"
    by (simp add: createdABA_eq)
  have e: "updateOrRemoveSchedule parsesExample (10, 0) [] ''a'' False createdABA =
      (None,
       \<lparr>ENGAGE_SCHEDULES = [\<lparr>entry_id = ''b'', entry_job = Some 1\<rparr>,
          \<lparr>entry_id = ''a'', entry_job = Some 2\<rparr>],
        scheduledJobs = [\<lparr>job_rule = ''30 14 15 * *'', job_message = msgA, cancelled = True\<rparr>,
          \<lparr>job_rule = ''* * * 12 3'', job_message = msgB, cancelled = False\<rparr>,
          \<lparr>job_rule = ''30 14 15 * *'', job_message = msgA, cancelled = False\<rparr>]\<rparr>)"
    by (simp add: createdABA_eq updateOrRemoveSchedule_def removeSelected_def splice1_def
        cancel_def)
  from removes_first_matching_entry_only [OF h hj, of False parsesExample "(10, 0)" "[]"]
  have "ENGAGE_SCHEDULES (snd (updateOrRemoveSchedule parsesExample (10, 0) [] ''a'' False
         createdABA))
       = take 0 (ENGAGE_SCHEDULES createdABA) @ drop (Suc 0) (ENGAGE_SCHEDULES createdABA)"
    by simp
  with h hj e show ?thesis by simp
qed

text \<open>
  Claim C10 as stated fails when the entry found has the \<open>null\<close> job of the fallback
  rule: the call finds the entry, throws at line 77, and cancels and removes nothing.
\<close>

theorem removal_on_null_job_removes_nothing:
  "findIndex (\<lambda>engage. entry_id engage = ''x'') (ENGAGE_SCHEDULES createdX) = Some 0
   \<and> removeSelected ''x'' False createdX = (Failed TypeError, createdX)
   \<and> ENGAGE_SCHEDULES (snd (updateOrRemoveSchedule parsesExample (10, 0) [] ''x'' False
         createdX)) = ENGAGE_SCHEDULES createdX
   \<and> ENGAGE_SCHEDULES createdX = [\<lparr>entry_id = ''x'', entry_job = None\<rparr>]"
  by (simp add: createdX_eq updateOrRemoveSchedule_def removeSelected_def)

text \<open>
  When the message found in the store has a rule that compiles, an update that nothing
  interrupts replaces the entry: the old job is cancelled, and one entry for the id is
  appended, with what \<open>scheduleJob\<close> returns for the rule of the message just read.
\<close>

lemma update_replaces_job:
  assumes "findIndex (\<lambda>engage. entry_id engage = i) (ENGAGE_SCHEDULES st) = Some k"
    and "entry_job (ENGAGE_SCHEDULES st ! k) = Some j"
    and "findOne store i = Some m"
    and "createScheduleRule now (scheduleDate m) = Inr r"
    and "parses r"
  shows "updateOrRemoveSchedule parses now store i True st =
     (None,
      \<lparr>ENGAGE_SCHEDULES = splice1 k (ENGAGE_SCHEDULES st)
          @ [\<lparr>entry_id = i, entry_job = Some (length (scheduledJobs st))\<rparr>],
       scheduledJobs = cancel j (scheduledJobs st)
          @ [\<lparr>job_rule = r, job_message = m, cancelled = False\<rparr>]\<rparr>)"
  using assms findOne_id [OF assms(3)]
  by (simp add: update_found createSchedule_def scheduleJob_def length_cancel)

text \<open>
  Claim C7 (after \<open>createSchedule(msg)\<close>, an update with a modified message in the
  store leaves exactly one entry for the id). On the code, when the modified message has
  a time and no type, \<open>createScheduleRule\<close> throws inside the update: the old job
  is cancelled, its entry is gone, and the registry has no entry for the id.
\<close>

theorem update_with_uncompilable_rule_leaves_no_entry:
  "createSchedule parsesExample (10, 0) (Some msgA) initial = (None, createdA)
   \<and> ids createdA = [''a'']
   \<and> findOne [msgA_edited] ''a'' = Some msgA_edited
   \<and> updateOrRemoveSchedule parsesExample (10, 0) [msgA_edited] ''a'' True createdA =
      (Some TypeError,
       \<lparr>ENGAGE_SCHEDULES = [],
        scheduledJobs = [\<lparr>job_rule = ''30 14 15 * *'', job_message = msgA, cancelled = True\<rparr>]\<rparr>)"
  by (simp add: createdA_eq ids_def findOne_def updateOrRemoveSchedule_def
      removeSelected_def splice1_def cancel_def createSchedule_def rule_timeOnly
      rule_monthly scheduleJob_def initial_def msgA_edited_def msgA_def parsesExample_def)

text \<open>
  When every live message has a rule that compiles, the bootstrap registers all of them,
  in the order of the store; in every case it registers a prefix of them and nothing
  else.
\<close>

lemma createSchedules_all:
  "\<forall>m\<in>set ms. \<exists>r. createScheduleRule now (scheduleDate m) = Inr r \<Longrightarrow>
   fst (createSchedules parses now ms st) = None
   \<and> ids (snd (createSchedules parses now ms st)) = ids st @ map msg_id ms"
proof (induction ms arbitrary: st)
  case Nil
  then show ?case by simp
next
  case (Cons m ms)
  from Cons.prems obtain r where r: "createScheduleRule now (scheduleDate m) = Inr r"
    by auto
  define st1 where "st1 = snd (createSchedule parses now (Some m) st)"
  from r have c: "createSchedule parses now (Some m) st = (None, st1)"
    by (simp add: st1_def createSchedule_def scheduleJob_def)
  from r have i1: "ids st1 = ids st @ [msg_id m]"
    by (simp add: st1_def ids_createSchedule)
  from Cons.prems have "\<forall>m\<in>set ms. \<exists>r. createScheduleRule now (scheduleDate m) = Inr r"
    by simp
  from Cons.IH [OF this, of st1] c i1 show ?case by simp
qed

lemma bootstrap_registers_live:
  "\<forall>m\<in>set (findLive store). \<exists>r. createScheduleRule now (scheduleDate m) = Inr r \<Longrightarrow>
   fst (initCronJob parses now store st) = None
   \<and> ids (snd (initCronJob parses now store st)) = ids st @ map msg_id (findLive store)"
  unfolding initCronJob_def by (rule createSchedules_all)

lemma createSchedules_prefix:
  "\<exists>n. ids (snd (createSchedules parses now ms st)) = ids st @ map msg_id (take n ms)"
proof (induction ms arbitrary: st)
  case Nil
  then show ?case by simp
next
  case (Cons m ms)
  obtain r st1 where c: "createSchedule parses now (Some m) st = (r, st1)"
    by (cases "createSchedule parses now (Some m) st")
  show ?case
  proof (cases r)
    case (Some e)
    with c have "createScheduleRule now (scheduleDate m) = Inl e"
      by (auto simp: createSchedule_def scheduleJob_def split: sum.splits if_splits)
    with c Some have "ids (snd (createSchedules parses now (m # ms) st)) = ids st"
      by (simp add: createSchedule_def)
    then have "ids (snd (createSchedules parses now (m # ms) st))
        = ids st @ map msg_id (take 0 (m # ms))"
      by simp
    then show ?thesis by blast
  next
    case None
    with c have "\<exists>r. createScheduleRule now (scheduleDate m) = Inr r"
      by (auto simp: createSchedule_def scheduleJob_def split: sum.splits if_splits)
    then have i1: "ids st1 = ids st @ [msg_id m]"
      using ids_createSchedule [of parses now "Some m" st] c by auto
    from Cons.IH [of st1] obtain n where
      "ids (snd (createSchedules parses now ms st1)) = ids st1 @ map msg_id (take n ms)"
      by blast
    with c None i1
    have "ids (snd (createSchedules parses now (m # ms) st))
        = ids st @ map msg_id (take (Suc n) (m # ms))"
      by simp
    then show ?thesis by blast
  qed
qed

text \<open>
  Claim C8 (the bootstrap calls \<open>createSchedule\<close> for every live auto message). On
  the code the loop ends at the first message for which \<open>createSchedule\<close> throws: with
  a first live message that has a time and no type, the second live message is never
  registered, although \<open>createSchedule\<close> accepts it.
\<close>

theorem bootstrap_stops_at_first_error:
  "findLive [msgA_edited, msgB] = [msgA_edited, msgB]
   \<and> initCronJob parses (10, 0) [msgA_edited, msgB] initial = (Some TypeError, initial)
   \<and> fst (createSchedule parses (10, 0) (Some msgB) initial) = None"
  by (simp add: findLive_def initCronJob_def createSchedule_def rule_timeOnly rule_weekly
      scheduleJob_def msgA_edited_def msgB_def)

end
